theory Spec2Isabelle
  imports Main "HOL-Library.Word"
begin

unbundle bit_operations_syntax

section \<open>The ADC client of libtock (userland/libtock/adc.c)\<close>

text \<open>
  The C types. \<open>int\<close> and \<open>uint32_t\<close> are both 32 bits wide; a value of either type is a
  32-bit word, read as two's complement by \<open>sint\<close> where the source compares an \<open>int\<close>
  (\<open>err < 0\<close>), and converted between the two types without a change of bits.
\<close>

type_synonym c_int = "32 word"
type_synonym uint32 = "32 word"
type_synonym uint8 = "8 word"

text \<open>The two result structures, \<open>struct adc_data\<close> and \<open>struct adc_freq\<close>.\<close>

record adc_data =
  reading :: c_int
  fired :: bool

record adc_freq =
  freq_value :: c_int
  computed :: bool

text \<open>
  A user handler \<open>void (*)(int)\<close> is opaque: it is known by its identity, and each call of
  it is recorded with its argument and with the contents of \<open>result\<close> at the moment of the
  call. The two internal callbacks and the two context pointers handed to \<open>subscribe\<close>
  are enumerated, as are the two flags handed to \<open>yield_for\<close>.
\<close>

type_synonym handler = nat
type_synonym invocation = "handler \<times> c_int \<times> adc_data"

datatype subscribe_cb = Adc_cb | Adc_freq_cb
datatype userdata = Result_ptr | Frequency_ptr
datatype flag = Result_fired | Frequency_computed

text \<open>An upcall carries the three integer arguments \<open>(callback_type, channel, value)\<close>.\<close>

type_synonym upcall = "c_int \<times> c_int \<times> c_int"

text \<open>
  The state: the three file-scope variables of adc.c (\<open>result\<close>, \<open>cont_cb\<close>,
  \<open>frequency\<close>), the record of handler calls, and the kernel as the client sees it:
  the subscription slots by (driver, subscribe number), the status \<open>reply n\<close> the kernel
  gives to the \<open>n\<close>-th system call with the count \<open>nsys\<close> of calls made so far, the
  upcalls the ADC driver will still raise, and the commands issued so far.
\<close>

record state =
  result :: adc_data
  cont_cb :: "handler option"
  frequency :: adc_freq
  calls :: "invocation list"
  slots :: "nat \<times> nat \<Rightarrow> (subscribe_cb \<times> userdata) option"
  reply :: "nat \<Rightarrow> c_int"
  nsys :: nat
  upcalls :: "upcall list"
  issued :: "(nat \<times> nat \<times> uint32) list"

definition DRIVER_NUM_ADC :: nat where
  "DRIVER_NUM_ADC = 7"

text \<open>
  Program start: \<open>result = { .fired = false }\<close>, \<open>frequency = { .computed = false }\<close>,
  \<open>cont_cb\<close> a null pointer, nothing subscribed, no command issued.
\<close>

definition init :: "(nat \<Rightarrow> c_int) \<Rightarrow> upcall list \<Rightarrow> state" where
  "init r us =
     \<lparr>result = \<lparr>reading = 0, fired = False\<rparr>,
      cont_cb = None,
      frequency = \<lparr>freq_value = 0, computed = False\<rparr>,
      calls = [],
      slots = (\<lambda>_. None),
      reply = r,
      nsys = 0,
      upcalls = us,
      issued = []\<rparr>"

subsection \<open>The callbacks\<close>

text \<open>
  Both callbacks write an \<open>int\<close> and then a \<open>bool\<close> through the context pointer. The two
  structures have the same layout, so a write through either pointer type lands in the
  structure the pointer addresses.
\<close>

definition store :: "userdata \<Rightarrow> c_int \<Rightarrow> state \<Rightarrow> state" where
  "store ud v s =
     (case ud of
        Result_ptr \<Rightarrow> s\<lparr>result := \<lparr>reading = v, fired = True\<rparr>\<rparr>
      | Frequency_ptr \<Rightarrow> s\<lparr>frequency := \<lparr>freq_value = v, computed = True\<rparr>\<rparr>)"

definition invoke :: "handler \<Rightarrow> c_int \<Rightarrow> state \<Rightarrow> state" where
  "invoke h v s = s\<lparr>calls := calls s @ [(h, v, result s)]\<rparr>"

text \<open>\<open>adc_cb\<close>: store the reading, set \<open>fired\<close>, then call \<open>cont_cb\<close> if it is not null.\<close>

definition adc_cb :: "c_int \<Rightarrow> c_int \<Rightarrow> c_int \<Rightarrow> userdata \<Rightarrow> state \<Rightarrow> state" where
  "adc_cb callback_type channel rd ud s =
     (let s1 = store ud rd s
      in case cont_cb s1 of None \<Rightarrow> s1 | Some h \<Rightarrow> invoke h rd s1)"

text \<open>\<open>adc_freq_cb\<close>: store the value and set \<open>computed\<close>.\<close>

definition adc_freq_cb :: "c_int \<Rightarrow> c_int \<Rightarrow> c_int \<Rightarrow> userdata \<Rightarrow> state \<Rightarrow> state" where
  "adc_freq_cb callback_type channel v ud s = store ud v s"

definition run_cb :: "subscribe_cb \<Rightarrow> c_int \<Rightarrow> c_int \<Rightarrow> c_int \<Rightarrow> userdata \<Rightarrow> state \<Rightarrow> state" where
  "run_cb cb = (case cb of Adc_cb \<Rightarrow> adc_cb | Adc_freq_cb \<Rightarrow> adc_freq_cb)"

subsection \<open>The system calls\<close>

text \<open>
  Modelled from the spec: \<open>subscribe\<close>, \<open>command\<close> and \<open>yield_for\<close> are defined in
  libtock's tock.c, which is not among the sources; adc.c only calls them. The spec gives
  \<open>command(driver_id, opcode, arg) -> status\<close>,
  \<open>subscribe(driver_id, subscribe_slot, handler, context) -> status\<close> and a yield that
  blocks until the flag becomes true, set only by a handler invocation. The status is
  whatever the kernel answers (\<open>reply\<close>). A subscribe that is accepted replaces the
  registration of its slot; a rejected one (negative status) leaves it.
\<close>

definition subscribe :: "nat \<Rightarrow> nat \<Rightarrow> subscribe_cb \<Rightarrow> userdata \<Rightarrow> state \<Rightarrow> c_int \<times> state" where
  "subscribe driver subnum cb ud s =
     (let st = reply s (nsys s);
          s' = s\<lparr>nsys := Suc (nsys s)\<rparr>
      in if sint st < 0 then (st, s')
         else (st, s'\<lparr>slots := (slots s')((driver, subnum) \<mapsto> (cb, ud))\<rparr>))"

text \<open>
  Modelled from the spec: a command is a request carrying one integer argument and
  returning an immediate status; no callback runs before the caller yields.
\<close>

definition command :: "nat \<Rightarrow> nat \<Rightarrow> uint32 \<Rightarrow> state \<Rightarrow> c_int \<times> state" where
  "command driver cmd arg s =
     (reply s (nsys s),
      s\<lparr>nsys := Suc (nsys s), issued := issued s @ [(driver, cmd, arg)]\<rparr>)"

text \<open>
  Modelled from the spec: the kernel hands an upcall of the ADC driver to the callback
  registered on subscription 0 of that driver, with the registered context; with nothing
  registered the upcall is dropped.
\<close>

definition dispatch :: "upcall \<Rightarrow> state \<Rightarrow> state" where
  "dispatch u s =
     (case slots s (DRIVER_NUM_ADC, 0) of
        None \<Rightarrow> s
      | Some (cb, ud) \<Rightarrow> (case u of (callback_type, channel, v) \<Rightarrow> run_cb cb callback_type channel v ud s))"

text \<open>
  Modelled from the spec: a run of upcalls handed over one after the other, each callback
  running to its end before the next upcall.
\<close>

fun dispatch_all :: "upcall list \<Rightarrow> state \<Rightarrow> state" where
  "dispatch_all [] s = s"
| "dispatch_all (u # us) s = dispatch_all us (dispatch u s)"

text \<open>
  Modelled from the spec: one \<open>yield\<close> runs the next upcall; when the driver raises no
  further upcall the caller stays suspended for ever (\<open>None\<close>).
\<close>

definition yield :: "state \<Rightarrow> state option" where
  "yield s =
     (case upcalls s of
        [] \<Rightarrow> None
      | u # us \<Rightarrow> Some (dispatch u (s\<lparr>upcalls := us\<rparr>)))"

text \<open>Reading the flag that \<open>yield_for\<close> is given the address of.\<close>

definition flag_set :: "flag \<Rightarrow> state \<Rightarrow> bool" where
  "flag_set fl s =
     (case fl of
        Result_fired \<Rightarrow> fired (result s)
      | Frequency_computed \<Rightarrow> computed (frequency s))"

text \<open>
  Modelled from the spec: \<open>yield_for(&flag)\<close> is \<open>while (!flag) yield();\<close>. It returns
  the state in which it found the flag set, or \<open>None\<close> when it never does.
\<close>

function yield_for :: "flag \<Rightarrow> state \<Rightarrow> state option" where
  "yield_for fl s =
     (if flag_set fl s then Some s
      else (case yield s of None \<Rightarrow> None | Some s' \<Rightarrow> yield_for fl s'))"
  by pat_completeness auto
termination
  by (relation "measure (\<lambda>(fl, s). length (upcalls s))")
    (auto simp: yield_def dispatch_def run_cb_def adc_cb_def adc_freq_cb_def invoke_def store_def Let_def
      split: list.splits option.splits prod.splits subscribe_cb.splits userdata.splits)

declare yield_for.simps [simp del]

subsection \<open>The driver interface of adc.c\<close>

definition adc_set_callback :: "subscribe_cb \<Rightarrow> userdata \<Rightarrow> state \<Rightarrow> c_int \<times> state" where
  "adc_set_callback callback callback_args s = subscribe DRIVER_NUM_ADC 0 callback callback_args s"

definition adc_initialize :: "state \<Rightarrow> c_int \<times> state" where
  "adc_initialize s = command DRIVER_NUM_ADC 1 0 s"

definition adc_single_sample :: "uint8 \<Rightarrow> state \<Rightarrow> c_int \<times> state" where
  "adc_single_sample channel s = command DRIVER_NUM_ADC 2 (ucast channel) s"

text \<open>
  The argument packed by \<open>adc_cont_sample\<close>:
  \<open>uint32_t chan_freq = (frequency << 8) | (channel);\<close>
\<close>

definition chan_freq :: "uint8 \<Rightarrow> uint32 \<Rightarrow> uint32" where
  "chan_freq channel freq = push_bit 8 freq OR ucast channel"

definition adc_cont_sample :: "uint8 \<Rightarrow> uint32 \<Rightarrow> state \<Rightarrow> c_int \<times> state" where
  "adc_cont_sample channel freq s = command DRIVER_NUM_ADC 3 (chan_freq channel freq) s"

definition adc_cancel_sampling :: "state \<Rightarrow> c_int \<times> state" where
  "adc_cancel_sampling s = command DRIVER_NUM_ADC 4 0 s"

definition adc_compute_frequency :: "uint32 \<Rightarrow> state \<Rightarrow> c_int \<times> state" where
  "adc_compute_frequency freq s = command DRIVER_NUM_ADC 5 freq s"

text \<open>
  \<open>adc_read_single_sample\<close>. The result is \<open>None\<close> when the call never returns, and
  otherwise the returned \<open>int\<close> with the state at the return.
\<close>

definition adc_read_single_sample :: "uint8 \<Rightarrow> state \<Rightarrow> (c_int \<times> state) option" where
  "adc_read_single_sample channel s0 =
     (let s1 = s0\<lparr>cont_cb := None\<rparr>;
          s2 = s1\<lparr>result := (result s1)\<lparr>fired := False\<rparr>\<rparr>;
          (err, s3) = adc_set_callback Adc_cb Result_ptr s2
      in if sint err < 0 then Some (err, s3)
         else
           (let (err', s4) = adc_single_sample channel s3
            in if sint err' < 0 then Some (err', s4)
               else (case yield_for Result_fired s4 of
                       None \<Rightarrow> None
                     | Some s5 \<Rightarrow> Some (reading (result s5), s5))))"

text \<open>\<open>adc_read_cont_sample\<close>; the handler argument may be a null pointer (\<open>None\<close>).\<close>

definition adc_read_cont_sample ::
    "uint8 \<Rightarrow> uint32 \<Rightarrow> handler option \<Rightarrow> state \<Rightarrow> c_int \<times> state" where
  "adc_read_cont_sample channel freq cb s0 =
     (let s1 = s0\<lparr>cont_cb := cb\<rparr>;
          (err, s2) = adc_set_callback Adc_cb Result_ptr s1
      in if sint err < 0 then (err, s2)
         else adc_cont_sample channel freq s2)"

text \<open>
  \<open>adc_nearest_sampling_freq\<close> (adc.c, lines 98 to 114) has no embedding. Its parameter
  \<open>uint32_t frequency\<close> hides the file-scope structure \<open>frequency\<close> of line 32 throughout
  the body: \<open>frequency.computed\<close> and \<open>frequency.value\<close> are member accesses on an integer,
  which C does not admit, and \<open>&frequency\<close> is the address of the parameter, not of the
  structure. As written the function is not a C function, so there is no behaviour of it
  to translate; its callback \<open>adc_freq_cb\<close> and its command wrapper
  \<open>adc_compute_frequency\<close> are embedded above.
\<close>

subsection \<open>Decoding the continuous-sample argument\<close>

text \<open>
  Modelled from the spec: the decoder of the packed argument is the kernel's ADC capsule,
  which is not among the sources. The spec says that the low bits carry the channel and
  the remaining high bits carry the frequency; with 8 bits for the channel (adc.h) these
  are the low byte and the argument shifted right by 8.
\<close>

definition decode_channel :: "uint32 \<Rightarrow> uint8" where
  "decode_channel arg = ucast (arg AND 255)"

definition decode_frequency :: "uint32 \<Rightarrow> uint32" where
  "decode_frequency arg = drop_bit 8 arg"

subsection \<open>Kernels and states of the examples\<close>

text \<open>
  A kernel that accepts every system call, a kernel that answers the \<open>k\<close>-th system call
  with the status \<open>e\<close> and accepts the others, and the state in which a continuous
  stream has been started at program start (\<open>adc_read_cont_sample(channel, 1000, h)\<close>
  with \<open>h\<close> the handler number 1).
\<close>

definition accept_all :: "nat \<Rightarrow> c_int" where
  "accept_all n = 0"

definition reject_at :: "nat \<Rightarrow> c_int \<Rightarrow> nat \<Rightarrow> c_int" where
  "reject_at k e n = (if n = k then e else 0)"

definition streaming :: "(nat \<Rightarrow> c_int) \<Rightarrow> uint8 \<Rightarrow> upcall list \<Rightarrow> state" where
  "streaming r channel us = snd (adc_read_cont_sample channel 1000 (Some 1) (init r us))"

section \<open>Packing of channel and frequency\<close>

lemma byte_mask: "(255 :: uint32) = mask 8"
  by (simp add: mask_eq_exp_minus_1)

lemma decode_channel_chan_freq: "decode_channel (chan_freq c f) = c"
  unfolding decode_channel_def chan_freq_def byte_mask
  by (rule bit_word_eqI) (auto simp: bit_simps dest: bit_imp_le_length)

lemma decode_frequency_chan_freq: "decode_frequency (chan_freq c f) = take_bit 24 f"
  unfolding decode_frequency_def chan_freq_def
  by (rule bit_word_eqI) (auto simp: bit_simps dest: bit_imp_le_length)

lemma chan_freq_take_bit: "chan_freq c (take_bit 24 f) = chan_freq c f"
  unfolding chan_freq_def
  by (rule bit_word_eqI) (auto simp: bit_simps)

lemma take_bit_24_small: "f < 2 ^ 24 \<Longrightarrow> take_bit 24 f = (f :: uint32)"
  by (simp add: take_bit_eq_mask less_mask_eq)

text \<open>
  C4. The argument of the continuous-sample command holds the channel in its low 8 bits
  and the frequency in its high 24 bits. Decoding a packed argument gives back the
  channel, and gives back the frequency when it fits in 24 bits; of a wider frequency
  exactly the low 24 bits survive (the high-order bits are lost), and packing the
  truncated frequency gives the same argument as packing the frequency itself.
\<close>

theorem chan_freq_roundtrip:
  "decode_channel (chan_freq c f) = c
   \<and> (f < 2 ^ 24 \<longrightarrow> decode_frequency (chan_freq c f) = f)
   \<and> decode_frequency (chan_freq c f) = take_bit 24 f
   \<and> chan_freq c (take_bit 24 f) = chan_freq c f"
  by (simp add: decode_channel_chan_freq decode_frequency_chan_freq chan_freq_take_bit
      take_bit_24_small)

theorem chan_freq_roundtrip_witness:
  "(1000 :: uint32) < 2 ^ 24
   \<and> decode_channel (chan_freq 3 1000) = 3
   \<and> decode_frequency (chan_freq 3 1000) = 1000
   \<and> decode_frequency (chan_freq 3 16777221) = 5
   \<and> chan_freq 3 5 = chan_freq 3 16777221"
  using chan_freq_roundtrip [of 3 1000] chan_freq_roundtrip [of 3 16777221]
  by simp

section \<open>The paths through the client functions\<close>

lemmas syscall_defs = adc_set_callback_def adc_single_sample_def adc_cont_sample_def
  adc_cancel_sampling_def adc_compute_frequency_def subscribe_def command_def Let_def

lemma yield_for_set: "flag_set fl s \<Longrightarrow> yield_for fl s = Some s"
  by (simp add: yield_for.simps)

lemma yield_for_Nil: "\<not> flag_set fl s \<Longrightarrow> upcalls s = [] \<Longrightarrow> yield_for fl s = None"
  by (simp add: yield_for.simps yield_def)

lemma yield_for_Cons:
  "\<not> flag_set fl s \<Longrightarrow> upcalls s = u # us \<Longrightarrow>
   yield_for fl s = yield_for fl (dispatch u (s\<lparr>upcalls := us\<rparr>))"
  by (simp add: yield_for.simps yield_def)

lemma dispatch_adc_cb:
  "slots s (DRIVER_NUM_ADC, 0) = Some (Adc_cb, Result_ptr) \<Longrightarrow>
   dispatch (ct, ch, v) s = adc_cb ct ch v Result_ptr s"
  by (simp add: dispatch_def run_cb_def)

text \<open>What \<open>adc_cb\<close> does with the context \<open>&result\<close>.\<close>

lemma adc_cb_result:
  "adc_cb ct ch v Result_ptr s =
     (case cont_cb s of
        None \<Rightarrow> s\<lparr>result := \<lparr>reading = v, fired = True\<rparr>\<rparr>
      | Some h \<Rightarrow> s\<lparr>result := \<lparr>reading = v, fired = True\<rparr>,
                    calls := calls s @ [(h, v, \<lparr>reading = v, fired = True\<rparr>)]\<rparr>)"
  by (simp add: adc_cb_def store_def invoke_def split: option.split)

text \<open>The four ways through \<open>adc_read_single_sample\<close>.\<close>

lemma adc_read_single_sample_ok:
  assumes "0 \<le> sint (reply s (nsys s))" "0 \<le> sint (reply s (Suc (nsys s)))"
    and "upcalls s = (ct, ch, v) # us"
  shows "adc_read_single_sample channel s =
    Some (v, s\<lparr>result := \<lparr>reading = v, fired = True\<rparr>, cont_cb := None,
               slots := (slots s)((DRIVER_NUM_ADC, 0) \<mapsto> (Adc_cb, Result_ptr)),
               nsys := Suc (Suc (nsys s)), upcalls := us,
               issued := issued s @ [(DRIVER_NUM_ADC, 2, ucast channel)]\<rparr>)"
  using assms
  by (simp add: adc_read_single_sample_def syscall_defs yield_for_Cons yield_for_set
      flag_set_def dispatch_adc_cb adc_cb_result)

lemma adc_read_single_sample_blocked:
  assumes "0 \<le> sint (reply s (nsys s))" "0 \<le> sint (reply s (Suc (nsys s)))"
    and "upcalls s = []"
  shows "adc_read_single_sample channel s = None"
  using assms
  by (simp add: adc_read_single_sample_def syscall_defs yield_for_Nil flag_set_def)

lemma adc_read_single_sample_subscribe_fails:
  assumes "sint (reply s (nsys s)) < 0"
  shows "adc_read_single_sample channel s =
    Some (reply s (nsys s),
          s\<lparr>result := (result s)\<lparr>fired := False\<rparr>, cont_cb := None, nsys := Suc (nsys s)\<rparr>)"
  using assms by (simp add: adc_read_single_sample_def syscall_defs)

lemma adc_read_single_sample_command_fails:
  assumes "0 \<le> sint (reply s (nsys s))" "sint (reply s (Suc (nsys s))) < 0"
  shows "adc_read_single_sample channel s =
    Some (reply s (Suc (nsys s)),
          s\<lparr>result := (result s)\<lparr>fired := False\<rparr>, cont_cb := None,
            slots := (slots s)((DRIVER_NUM_ADC, 0) \<mapsto> (Adc_cb, Result_ptr)),
            nsys := Suc (Suc (nsys s)),
            issued := issued s @ [(DRIVER_NUM_ADC, 2, ucast channel)]\<rparr>)"
  using assms by (simp add: adc_read_single_sample_def syscall_defs)

text \<open>It stays suspended only when both calls are accepted and no upcall comes.\<close>

lemma adc_read_single_sample_None_iff:
  "adc_read_single_sample channel s = None \<longleftrightarrow>
     0 \<le> sint (reply s (nsys s)) \<and> 0 \<le> sint (reply s (Suc (nsys s))) \<and> upcalls s = []"
proof (cases "sint (reply s (nsys s)) < 0")
  case True
  then show ?thesis by (simp add: adc_read_single_sample_subscribe_fails)
next
  case sub: False
  show ?thesis
  proof (cases "sint (reply s (Suc (nsys s))) < 0")
    case True
    with sub show ?thesis by (simp add: adc_read_single_sample_command_fails)
  next
    case cmd: False
    show ?thesis
    proof (cases "upcalls s")
      case Nil
      with sub cmd show ?thesis by (simp add: adc_read_single_sample_blocked)
    next
      case (Cons u rest)
      obtain ct ch v where "u = (ct, ch, v)" by (cases u)
      with Cons sub cmd show ?thesis by (simp add: adc_read_single_sample_ok)
    qed
  qed
qed

text \<open>The two ways through \<open>adc_read_cont_sample\<close>, and \<open>adc_cancel_sampling\<close>.\<close>

lemma adc_read_cont_sample_subscribe_fails:
  assumes "sint (reply s (nsys s)) < 0"
  shows "adc_read_cont_sample channel freq cb s =
    (reply s (nsys s), s\<lparr>cont_cb := cb, nsys := Suc (nsys s)\<rparr>)"
  using assms by (simp add: adc_read_cont_sample_def syscall_defs)

lemma adc_read_cont_sample_subscribed:
  assumes "0 \<le> sint (reply s (nsys s))"
  shows "adc_read_cont_sample channel freq cb s =
    (reply s (Suc (nsys s)),
     s\<lparr>cont_cb := cb,
       slots := (slots s)((DRIVER_NUM_ADC, 0) \<mapsto> (Adc_cb, Result_ptr)),
       nsys := Suc (Suc (nsys s)),
       issued := issued s @ [(DRIVER_NUM_ADC, 3, chan_freq channel freq)]\<rparr>)"
  using assms by (simp add: adc_read_cont_sample_def syscall_defs)

lemma adc_cancel_sampling_eq:
  "adc_cancel_sampling s =
    (reply s (nsys s),
     s\<lparr>nsys := Suc (nsys s), issued := issued s @ [(DRIVER_NUM_ADC, 4, 0)]\<rparr>)"
  by (simp add: syscall_defs)

text \<open>Upcalls that find no handler installed call none.\<close>

lemma dispatch_no_handler:
  "cont_cb s = None \<Longrightarrow> cont_cb (dispatch u s) = None \<and> calls (dispatch u s) = calls s"
  by (auto simp: dispatch_def run_cb_def adc_cb_def adc_freq_cb_def store_def
      split: option.splits prod.splits subscribe_cb.splits userdata.splits)

lemma dispatch_all_no_handler:
  "cont_cb s = None \<Longrightarrow>
   cont_cb (dispatch_all us s) = None \<and> calls (dispatch_all us s) = calls s"
proof (induction us arbitrary: s)
  case Nil
  then show ?case by simp
next
  case (Cons u us)
  from dispatch_no_handler [OF Cons.prems, of u] Cons.IH [of "dispatch u s"]
  show ?case by simp
qed

text \<open>Upcalls handed to \<open>adc_cb\<close> with a handler installed call it, one by one.\<close>

lemma dispatch_all_adc_cb:
  assumes "slots s (DRIVER_NUM_ADC, 0) = Some (Adc_cb, Result_ptr)" "cont_cb s = Some h"
  shows "calls (dispatch_all us s) =
         calls s @ map (\<lambda>(ct, ch, v). (h, v, \<lparr>reading = v, fired = True\<rparr>)) us"
  using assms
proof (induction us arbitrary: s)
  case Nil
  then show ?case by simp
next
  case (Cons u us)
  obtain ct ch v where u: "u = (ct, ch, v)" by (cases u)
  have d: "dispatch (ct, ch, v) s =
           s\<lparr>result := \<lparr>reading = v, fired = True\<rparr>,
             calls := calls s @ [(h, v, \<lparr>reading = v, fired = True\<rparr>)]\<rparr>"
    using Cons.prems by (simp add: dispatch_adc_cb adc_cb_result)
  have "calls (dispatch_all us (dispatch (ct, ch, v) s)) =
        calls (dispatch (ct, ch, v) s)
          @ map (\<lambda>(ct, ch, v). (h, v, \<lparr>reading = v, fired = True\<rparr>)) us"
    using Cons.prems by (intro Cons.IH) (simp_all add: d)
  then show ?case by (simp add: u d)
qed

lemma streaming_accept_all:
  "streaming accept_all channel us =
     \<lparr>result = \<lparr>reading = 0, fired = False\<rparr>,
      cont_cb = Some 1,
      frequency = \<lparr>freq_value = 0, computed = False\<rparr>,
      calls = [],
      slots = (\<lambda>_. None)((DRIVER_NUM_ADC, 0) \<mapsto> (Adc_cb, Result_ptr)),
      reply = accept_all,
      nsys = 2,
      upcalls = us,
      issued = [(DRIVER_NUM_ADC, 3, chan_freq channel 1000)]\<rparr>"
  by (simp add: streaming_def adc_read_cont_sample_subscribed init_def accept_all_def
      numeral_2_eq_2)

section \<open>Cancelling a stream\<close>

text \<open>
  C1, as stated, fails. The claim is that \<open>adc_cancel_sampling\<close> clears \<open>cont_cb\<close>, so
  that a late sample callback calls no handler. With a stream started for the handler 1
  and then cancelled, \<open>cont_cb\<close> still holds the handler 1, and a late callback delivering 7
  calls it with 7.
\<close>

theorem cancel_keeps_handler_counterexample:
  "cont_cb (snd (adc_cancel_sampling (streaming accept_all 0 []))) = Some 1
   \<and> calls (dispatch (0, 0, 7) (snd (adc_cancel_sampling (streaming accept_all 0 []))))
       = [(1, 7, \<lparr>reading = 7, fired = True\<rparr>)]"
  by (simp add: streaming_accept_all adc_cancel_sampling_eq dispatch_adc_cb adc_cb_result)

text \<open>
  C1, amended. \<open>adc_cancel_sampling\<close> issues the cancel command (command 4 of driver 7,
  argument 0) and returns its status, nothing else: whatever the status, \<open>cont_cb\<close>,
  \<open>result\<close>, the subscription and the record of handler calls are as before. A late
  sample callback after the cancellation, handed to \<open>adc_cb\<close>, therefore still calls the
  installed handler with the sample.
\<close>

theorem cancel_leaves_handler:
  "fst (adc_cancel_sampling s) = reply s (nsys s)
   \<and> issued (snd (adc_cancel_sampling s)) = issued s @ [(DRIVER_NUM_ADC, 4, 0)]
   \<and> cont_cb (snd (adc_cancel_sampling s)) = cont_cb s
   \<and> result (snd (adc_cancel_sampling s)) = result s
   \<and> slots (snd (adc_cancel_sampling s)) = slots s
   \<and> calls (snd (adc_cancel_sampling s)) = calls s
   \<and> (cont_cb s = Some h \<and> slots s (DRIVER_NUM_ADC, 0) = Some (Adc_cb, Result_ptr) \<longrightarrow>
        calls (dispatch (ct, ch, v) (snd (adc_cancel_sampling s)))
          = calls s @ [(h, v, \<lparr>reading = v, fired = True\<rparr>)])"
  by (simp add: adc_cancel_sampling_eq dispatch_adc_cb adc_cb_result)

theorem cancel_leaves_handler_witness:
  "cont_cb (streaming (reject_at 2 (-1)) 0 []) = Some 1
   \<and> slots (streaming (reject_at 2 (-1)) 0 []) (DRIVER_NUM_ADC, 0) = Some (Adc_cb, Result_ptr)
   \<and> fst (adc_cancel_sampling (streaming (reject_at 2 (-1)) 0 [])) = - 1
   \<and> calls (dispatch (0, 0, 7) (snd (adc_cancel_sampling (streaming (reject_at 2 (-1)) 0 []))))
       = [(1, 7, \<lparr>reading = 7, fired = True\<rparr>)]"
proof -
  let ?s = "streaming (reject_at 2 (-1)) 0 []"
  have s: "cont_cb ?s = Some 1" "slots ?s (DRIVER_NUM_ADC, 0) = Some (Adc_cb, Result_ptr)"
    "calls ?s = []" "reply ?s (nsys ?s) = - 1"
    by (simp_all add: streaming_def adc_read_cont_sample_subscribed init_def reject_at_def)
  from cancel_leaves_handler [of ?s 1 0 0 7] s show ?thesis by simp
qed

section \<open>The synchronous single sample\<close>

text \<open>
  C2, as stated, fails. The claim is that \<open>adc_read_single_sample\<close> returns the value of
  the callback that matches its request and never a value of an unrelated continuous
  session. \<open>adc_cb\<close> ignores its \<open>callback_type\<close> and \<open>channel\<close> arguments: with a stream
  running on channel 3 whose next sample is 99, \<open>adc_read_single_sample(0)\<close> returns 99.
\<close>

theorem read_single_other_channel_counterexample:
  "map_option fst (adc_read_single_sample 0 (streaming accept_all 3 [(0, 3, 99)])) = Some 99"
  by (simp add: streaming_accept_all adc_read_single_sample_ok [where ct = 0 and ch = 3 and v = 99 and us = "[]"]
      accept_all_def)

text \<open>
  C2, amended. For every channel, when the kernel accepts the subscribe and the
  single-sample command, \<open>adc_read_single_sample\<close> suspends until \<open>fired\<close> is set and
  returns exactly the value of the first callback that runs after its request, whatever
  the \<open>callback_type\<close> and \<open>channel\<close> of that callback; \<open>fired\<close> is set at the return,
  the value is the one in \<open>result\<close>, and \<open>frequency\<close> is neither read nor written. With no
  callback the call does not return. (The example of the witness: channel 0 and a
  callback delivering 512 give 512.)
\<close>

theorem read_single_returns_next_reading:
  assumes "0 \<le> sint (reply s (nsys s))" and "0 \<le> sint (reply s (Suc (nsys s)))"
  shows "(upcalls s = (ct, ch, v) # us \<longrightarrow>
            (\<exists>s'. adc_read_single_sample channel s = Some (v, s')
                  \<and> fired (result s') \<and> reading (result s') = v
                  \<and> frequency s' = frequency s \<and> upcalls s' = us))
         \<and> (upcalls s = [] \<longrightarrow> adc_read_single_sample channel s = None)"
  using assms
  by (simp add: adc_read_single_sample_ok adc_read_single_sample_blocked)

theorem read_single_returns_next_reading_witness:
  "0 \<le> sint (accept_all 0) \<and> 0 \<le> sint (accept_all 1)
   \<and> map_option fst (adc_read_single_sample 0 (init accept_all [(0, 0, 512)])) = Some 512
   \<and> adc_read_single_sample 0 (init accept_all []) = None"
proof -
  have a: "0 \<le> sint (reply (init accept_all us) (nsys (init accept_all us)))"
    "0 \<le> sint (reply (init accept_all us) (Suc (nsys (init accept_all us))))" for us
    by (simp_all add: init_def accept_all_def)
  have u: "upcalls (init accept_all us) = us" for us
    by (simp add: init_def)
  from read_single_returns_next_reading [OF a, of "[(0, 0, 512)]" 0 0 512 "[]" 0]
    read_single_returns_next_reading [OF a, of "[]" 0 0 0 "[]" 0]
  show ?thesis by (auto simp: u accept_all_def)
qed

text \<open>
  C3. Every call of \<open>adc_read_single_sample\<close> that returns, with a sample or with an
  error status, has cleared \<open>cont_cb\<close>: no handler was called during the call, and no
  run of upcalls after the call calls one. The call returns unless both system calls are
  accepted and no upcall comes at all, in which case there is no callback to call a
  handler.
\<close>

theorem read_single_clears_handler:
  "(adc_read_single_sample channel s = None \<longleftrightarrow>
      0 \<le> sint (reply s (nsys s)) \<and> 0 \<le> sint (reply s (Suc (nsys s))) \<and> upcalls s = [])
   \<and> (adc_read_single_sample channel s = Some (r, s') \<longrightarrow>
        cont_cb s' = None \<and> calls s' = calls s
        \<and> cont_cb (dispatch_all us s') = None \<and> calls (dispatch_all us s') = calls s)"
proof -
  have "cont_cb s' = None \<and> calls s' = calls s"
    if ret: "adc_read_single_sample channel s = Some (r, s')"
  proof (cases "sint (reply s (nsys s)) < 0")
    case True
    with ret show ?thesis by (auto simp: adc_read_single_sample_subscribe_fails)
  next
    case sub: False
    show ?thesis
    proof (cases "sint (reply s (Suc (nsys s))) < 0")
      case True
      with sub ret show ?thesis by (auto simp: adc_read_single_sample_command_fails)
    next
      case cmd: False
      show ?thesis
      proof (cases "upcalls s")
        case Nil
        with sub cmd ret show ?thesis by (simp add: adc_read_single_sample_blocked)
      next
        case (Cons u rest)
        obtain ct ch v where "u = (ct, ch, v)" by (cases u)
        with Cons sub cmd ret show ?thesis by (auto simp: adc_read_single_sample_ok)
      qed
    qed
  qed
  with dispatch_all_no_handler [of s' us] adc_read_single_sample_None_iff [of channel s]
  show ?thesis by simp
qed

theorem read_single_clears_handler_witness:
  "cont_cb (streaming accept_all 0 [(0, 0, 5)]) = Some 1
   \<and> map_option fst (adc_read_single_sample 0 (streaming accept_all 0 [(0, 0, 5)])) = Some 5
   \<and> map_option (cont_cb \<circ> snd) (adc_read_single_sample 0 (streaming accept_all 0 [(0, 0, 5)]))
       = Some None
   \<and> map_option (calls \<circ> dispatch_all [(0, 0, 6), (0, 0, 7)] \<circ> snd)
        (adc_read_single_sample 0 (streaming accept_all 0 [(0, 0, 5)])) = Some []"
proof -
  let ?s = "streaming accept_all 0 [(0, 0, 5)]"
  obtain s' where r: "adc_read_single_sample 0 ?s = Some (5, s')"
    by (simp add: streaming_accept_all
        adc_read_single_sample_ok [where ct = 0 and ch = 0 and v = 5 and us = "[]"] accept_all_def)
  have c: "cont_cb ?s = Some 1" "calls ?s = []"
    by (simp_all add: streaming_accept_all)
  from read_single_clears_handler [of 0 ?s 5 s' "[(0, 0, 6), (0, 0, 7)]"] r c
  show ?thesis by simp
qed

text \<open>
  C7. When the subscribe inside \<open>adc_read_single_sample\<close> returns a negative status, or
  the subscribe is accepted and the single-sample command returns a negative status, the
  function returns that status without yielding (no upcall is consumed and no handler
  called), and \<open>fired\<close> is false at the return.
\<close>

theorem read_single_propagates_failure:
  "(sint (reply s (nsys s)) < 0 \<longrightarrow>
      (\<exists>s'. adc_read_single_sample channel s = Some (reply s (nsys s), s')
            \<and> \<not> fired (result s') \<and> upcalls s' = upcalls s \<and> calls s' = calls s))
   \<and> (0 \<le> sint (reply s (nsys s)) \<and> sint (reply s (Suc (nsys s))) < 0 \<longrightarrow>
      (\<exists>s'. adc_read_single_sample channel s = Some (reply s (Suc (nsys s)), s')
            \<and> \<not> fired (result s') \<and> upcalls s' = upcalls s \<and> calls s' = calls s))"
  by (simp add: adc_read_single_sample_subscribe_fails adc_read_single_sample_command_fails)

theorem read_single_propagates_failure_witness:
  "sint (reject_at 0 (- 1) 0) < 0
   \<and> map_option fst (adc_read_single_sample 0 (init (reject_at 0 (- 1)) [])) = Some (- 1)
   \<and> map_option (fired \<circ> result \<circ> snd) (adc_read_single_sample 0 (init (reject_at 0 (- 1)) []))
       = Some False
   \<and> 0 \<le> sint (reject_at 1 (- 2) 0) \<and> sint (reject_at 1 (- 2) 1) < 0
   \<and> map_option fst (adc_read_single_sample 0 (init (reject_at 1 (- 2)) [])) = Some (- 2)
   \<and> map_option (fired \<circ> result \<circ> snd) (adc_read_single_sample 0 (init (reject_at 1 (- 2)) []))
       = Some False"
proof -
  have i: "reply (init r us) = r" "nsys (init r us) = 0" for r us
    by (simp_all add: init_def)
  have a: "sint (reject_at 0 (- 1) 0) < 0" "0 \<le> sint (reject_at 1 (- 2) 0)"
    "sint (reject_at 1 (- 2) 1) < 0"
    by (simp_all add: reject_at_def)
  from read_single_propagates_failure [of "init (reject_at 0 (- 1)) []" 0]
    read_single_propagates_failure [of "init (reject_at 1 (- 2)) []" 0] a
  show ?thesis by (auto simp: i reject_at_def)
qed

section \<open>Frequency negotiation\<close>

text \<open>
  C5, C8 and C9 are about \<open>adc_nearest_sampling_freq\<close>. The function is not embedded (see
  the note with the driver interface): the parameter named \<open>frequency\<close> hides the
  structure it means to use, so nothing can be evaluated or proved of it. What the source
  shows without evaluation: the body is shaped like \<open>adc_read_single_sample\<close> (reset the
  flag, subscribe, command, \<open>if (err < 0) return err;\<close> after each, \<open>yield_for\<close>, return the
  stored value), but it has no statement that assigns \<open>cont_cb\<close>, where
  \<open>adc_read_single_sample\<close> begins with \<open>cont_cb = NULL\<close>, and its return type is
  \<open>uint32_t\<close>, where \<open>adc_read_single_sample\<close> returns \<open>int\<close>.
\<close>

section \<open>Continuous sampling\<close>

text \<open>
  C6. \<open>adc_cb\<close> stores the reading in \<open>result\<close> and sets \<open>fired\<close>, and then, if a
  handler is installed, calls it with that reading: the handler finds \<open>result\<close> already
  updated. A run of sample callbacks calls the installed handler once per callback, with
  the samples in the order of their delivery. (The example of the witness: after
  \<open>adc_read_cont_sample(0, 1000, h)\<close> the callbacks 1, 2, 3 call \<open>h\<close> with 1, 2, 3.)
\<close>

theorem adc_cb_stores_then_calls_handler:
  "adc_cb ct ch v Result_ptr s =
     (case cont_cb s of
        None \<Rightarrow> s\<lparr>result := \<lparr>reading = v, fired = True\<rparr>\<rparr>
      | Some h \<Rightarrow> s\<lparr>result := \<lparr>reading = v, fired = True\<rparr>,
                    calls := calls s @ [(h, v, \<lparr>reading = v, fired = True\<rparr>)]\<rparr>)
   \<and> (slots s (DRIVER_NUM_ADC, 0) = Some (Adc_cb, Result_ptr) \<and> cont_cb s = Some h' \<longrightarrow>
        calls (dispatch_all us s)
          = calls s @ map (\<lambda>(ct, ch, v). (h', v, \<lparr>reading = v, fired = True\<rparr>)) us)"
  by (simp add: adc_cb_result dispatch_all_adc_cb)

theorem adc_cb_stores_then_calls_handler_witness:
  "slots (streaming accept_all 0 []) (DRIVER_NUM_ADC, 0) = Some (Adc_cb, Result_ptr)
   \<and> cont_cb (streaming accept_all 0 []) = Some 1
   \<and> issued (streaming accept_all 0 []) = [(DRIVER_NUM_ADC, 3, 256000)]
   \<and> calls (dispatch_all [(0, 0, 1), (0, 0, 2), (0, 0, 3)] (streaming accept_all 0 []))
       = [(1, 1, \<lparr>reading = 1, fired = True\<rparr>),
          (1, 2, \<lparr>reading = 2, fired = True\<rparr>),
          (1, 3, \<lparr>reading = 3, fired = True\<rparr>)]"
proof -
  let ?s = "streaming accept_all 0 []"
  have s: "slots ?s (DRIVER_NUM_ADC, 0) = Some (Adc_cb, Result_ptr)" "cont_cb ?s = Some 1"
    "calls ?s = []" "issued ?s = [(DRIVER_NUM_ADC, 3, 256000)]"
    by (simp_all add: streaming_accept_all chan_freq_def)
  from adc_cb_stores_then_calls_handler [of 0 0 0 ?s 1 "[(0, 0, 1), (0, 0, 2), (0, 0, 3)]"] s
  show ?thesis by simp
qed

text \<open>
  C10. \<open>adc_read_cont_sample\<close> stores the new handler in \<open>cont_cb\<close> before it subscribes:
  on every path the state at the return has the new handler installed. If the subscribe
  returns a negative status the function returns it with the subscription as it was and
  no command issued; if the subscribe is accepted and the command returns a negative
  status the function returns that; in both cases the earlier handler is replaced.
\<close>

theorem read_cont_installs_handler_without_rollback:
  "cont_cb (snd (adc_read_cont_sample channel freq cb s)) = cb
   \<and> (sint (reply s (nsys s)) < 0 \<longrightarrow>
        fst (adc_read_cont_sample channel freq cb s) = reply s (nsys s)
        \<and> slots (snd (adc_read_cont_sample channel freq cb s)) = slots s
        \<and> issued (snd (adc_read_cont_sample channel freq cb s)) = issued s)
   \<and> (0 \<le> sint (reply s (nsys s)) \<and> sint (reply s (Suc (nsys s))) < 0 \<longrightarrow>
        fst (adc_read_cont_sample channel freq cb s) = reply s (Suc (nsys s)))"
proof (cases "sint (reply s (nsys s)) < 0")
  case True
  then show ?thesis by (simp add: adc_read_cont_sample_subscribe_fails)
next
  case False
  then show ?thesis by (simp add: adc_read_cont_sample_subscribed)
qed

theorem read_cont_installs_handler_without_rollback_witness:
  "cont_cb (streaming (reject_at 2 (- 1)) 0 []) = Some 1
   \<and> sint (reply (streaming (reject_at 2 (- 1)) 0 []) (nsys (streaming (reject_at 2 (- 1)) 0 []))) < 0
   \<and> fst (adc_read_cont_sample 0 2000 (Some 2) (streaming (reject_at 2 (- 1)) 0 [])) = - 1
   \<and> cont_cb (snd (adc_read_cont_sample 0 2000 (Some 2) (streaming (reject_at 2 (- 1)) 0 []))) = Some 2
   \<and> 0 \<le> sint (reply (streaming (reject_at 3 (- 1)) 0 []) (nsys (streaming (reject_at 3 (- 1)) 0 [])))
   \<and> sint (reply (streaming (reject_at 3 (- 1)) 0 []) (Suc (nsys (streaming (reject_at 3 (- 1)) 0 [])))) < 0
   \<and> fst (adc_read_cont_sample 0 2000 (Some 2) (streaming (reject_at 3 (- 1)) 0 [])) = - 1
   \<and> cont_cb (snd (adc_read_cont_sample 0 2000 (Some 2) (streaming (reject_at 3 (- 1)) 0 []))) = Some 2"
proof -
  let ?s = "streaming (reject_at 2 (- 1)) 0 []"
  let ?t = "streaming (reject_at 3 (- 1)) 0 []"
  have s: "cont_cb ?s = Some 1" "reply ?s = reject_at 2 (- 1)" "nsys ?s = 2"
    and t: "reply ?t = reject_at 3 (- 1)" "nsys ?t = 2"
    by (simp_all add: streaming_def adc_read_cont_sample_subscribed init_def reject_at_def)
  from read_cont_installs_handler_without_rollback [of 0 2000 "Some 2" ?s]
    read_cont_installs_handler_without_rollback [of 0 2000 "Some 2" ?t] s(1)
  show ?thesis by (simp add: s(2,3) t reject_at_def)
qed

end
